theory Spec2Isabelle
  imports Complex_Main "HOL-Library.Char_ord" "HOL-Library.List_Lexorder"
begin

section \<open>Audio intent detection: the preprocessing pipeline of main.ipynb\<close>

text \<open>
  The notebook reads audio files listed in a CSV file, trims silence, drops recordings
  that are too long, turns every recording into an MFCC matrix of one fixed width, one-hot
  encodes the labels, trains a network and writes predictions for an evaluation file.

  Conventions of the embedding.
  \<^item> Python floats are modelled as exact rationals (\<open>rat\<close>); \<open>math.ceil\<close> is the
    ceiling \<open>\<lceil>_\<rceil>\<close> into \<open>int\<close>. Rounding of IEEE doubles is not modelled.
  \<^item> Every exception the notebook's own code can raise is a value of \<open>pyerr\<close>; a function
    that may raise returns \<open>pyerr + 'a\<close>, with \<open>Inl\<close> the exception.
  \<^item> The functions of librosa, keras and the trained network are parameters of the model:
    \<open>load\<close> (\<open>librosa.load\<close>), \<open>trim\<close> (\<open>librosa.effects.trim\<close>), \<open>mfcc\<close>
    (\<open>librosa.feature.mfcc\<close>) and \<open>predict\<close> (\<open>model.predict\<close>). The small array
    operations of numpy, pandas and scikit-learn that the notebook calls are written out
    from their documented behaviour.
\<close>

subsection \<open>Exceptions\<close>

datatype pyerr =
    UnboundLocalError
  | NameError
  | KeyError
  | ValueError
  | ZeroDivisionError
  | IndexError
  | TypeError
  | ExternalError

text \<open>Sequencing of statements that may raise: the first exception ends the run.\<close>

definition bindE :: "pyerr + 'a \<Rightarrow> ('a \<Rightarrow> pyerr + 'b) \<Rightarrow> pyerr + 'b" where
  "bindE m f = (case m of Inl e \<Rightarrow> Inl e | Inr v \<Rightarrow> f v)"

text \<open>A loop (or comprehension) whose body may raise, run over the items in order.\<close>

fun mapE :: "('a \<Rightarrow> pyerr + 'b) \<Rightarrow> 'a list \<Rightarrow> pyerr + 'b list" where
  "mapE f [] = Inr []"
| "mapE f (a # as) = bindE (f a) (\<lambda>b. bindE (mapE f as) (\<lambda>bs. Inr (b # bs)))"

subsection \<open>Data\<close>

text \<open>A waveform is a one-dimensional array of samples.\<close>

type_synonym wave = "rat list"

text \<open>
  A two-dimensional numpy array with its shape. For an MFCC matrix the rows are the
  coefficients and the columns are the frames, so \<open>mfcc.shape[1]\<close> is \<open>ncols\<close>.
\<close>

record ndarray =
  nrows :: nat
  ncols :: nat
  cells :: "rat list list"



text \<open>
  A pandas DataFrame: the rows in order, each with its index label. \<open>read_csv\<close> gives the
  labels \<open>0, 1, 2, \<dots>\<close>. A feature row has the column \<open>Signal\<close> and its other columns.
\<close>

type_synonym 'r dataframe = "(nat \<times> 'r) list"

record ('s, 'o) xrow =
  Signal :: 's
  other :: 'o

subsection \<open>numpy: padding and slicing the time axis\<close>

text \<open>
  \<open>np.pad(a, pad_width=((0, 0), (0, w)), mode="constant")\<close>: \<open>w\<close> zeros after every row.
  numpy raises ValueError for a negative width.
\<close>

definition np_pad :: "ndarray \<Rightarrow> int \<Rightarrow> pyerr + ndarray" where
  "np_pad a w =
     (if w < 0 then Inl ValueError
      else Inr \<lparr>nrows = nrows a, ncols = ncols a + nat w,
                cells = map (\<lambda>r. r @ replicate (nat w) 0) (cells a)\<rparr>)"

text \<open>
  The end of the Python slice \<open>0:stop\<close> on an axis of length \<open>n\<close>: a negative stop counts
  from the end, and the result is clipped to \<open>0..n\<close>.
\<close>

definition slice_stop :: "nat \<Rightarrow> int \<Rightarrow> nat" where
  "slice_stop n stop = (if stop < 0 then nat (int n + stop) else min (nat stop) n)"

text \<open>\<open>a[:, 0:stop]\<close>\<close>

definition slice_cols :: "ndarray \<Rightarrow> int \<Rightarrow> ndarray" where
  "slice_cols a stop =
     (let k = slice_stop (ncols a) stop
      in \<lparr>nrows = nrows a, ncols = k, cells = map (take k) (cells a)\<rparr>)"

subsection \<open>convert_to_mfcc\<close>

text \<open>
  (In the notebook file the first line of this cell reads \<open>ef convert_to_mfcc(...)\<close>; it
  is read here as the \<open>def\<close> it stands for.)
  The body of the loop of \<open>convert_to_mfcc\<close> after the call of \<open>librosa.feature.mfcc\<close>:
  \<^verbatim>\<open>
        max_pad_len = (max_audio_len * srr) / 512
        pad_width = ceil(max_pad_len - mfcc.shape[1])
        if mfcc.shape[1] <= max_pad_len:
            mfcc = np.pad(mfcc, pad_width=((0, 0), (0, pad_width)), mode="constant")
        else:
            mfcc = mfcc[:, 0 : ceil(max_pad_len)]
  \<close>
\<close>

definition max_pad_len :: "rat \<Rightarrow> nat \<Rightarrow> rat" where
  "max_pad_len max_audio_len srr = (max_audio_len * of_nat srr) / 512"

definition pad_or_truncate :: "rat \<Rightarrow> nat \<Rightarrow> ndarray \<Rightarrow> pyerr + ndarray" where
  "pad_or_truncate max_audio_len srr mfcc =
     (let pad_width = \<lceil>max_pad_len max_audio_len srr - of_nat (ncols mfcc)\<rceil>
      in if of_nat (ncols mfcc) \<le> max_pad_len max_audio_len srr
         then np_pad mfcc pad_width
         else Inr (slice_cols mfcc \<lceil>max_pad_len max_audio_len srr\<rceil>))"

text \<open>
  The loop: every row's \<open>Signal\<close> cell is replaced by its fitted MFCC matrix; index labels
  and the other columns stay. The loop visits the rows in order and writes the cell of the
  row it visits (\<open>x.at[index, "Signal"]\<close>; index labels are unique in every frame the
  notebook builds), so it is the row-wise map, stopped by the first exception.
\<close>

definition convert_to_mfcc ::
  "(wave \<Rightarrow> nat \<Rightarrow> pyerr + ndarray) \<Rightarrow> (wave, 'o) xrow dataframe \<Rightarrow> nat \<Rightarrow> rat
     \<Rightarrow> pyerr + (ndarray, 'o) xrow dataframe" where
  "convert_to_mfcc mfcc x srr max_audio_len =
     mapE (\<lambda>(index, row).
        bindE (mfcc (Signal row) srr) (\<lambda>m.
        bindE (pad_or_truncate max_audio_len srr m) (\<lambda>m'.
        Inr (index, \<lparr>Signal = m', other = other row\<rparr>)))) x"



subsection \<open>read_data\<close>

text \<open>
  A row of the CSV file: the path of the audio file, the columns \<open>Id\<close>, \<open>action\<close> and
  \<open>object\<close>, and whatever other columns the file has. (The evaluation file has no
  \<open>action\<close> and \<open>object\<close> columns; no statement of the notebook reads them in that mode.)
\<close>

record 'e csv_row =
  csv_path :: string
  csv_Id :: nat
  csv_action :: string
  csv_object :: string
  csv_extra :: 'e

record yrow =
  y_action :: string
  y_object :: string
  y_intention :: string

text \<open>
  The loading loop. The local variable \<open>srr\<close> is unbound before the first iteration
  (\<open>None\<close>) and is assigned again by every iteration:
  \<^verbatim>\<open>
    for index, row in development_pd.iterrows():
        wave, srr = librosa.load(row["path"], mono=True, sr=None)
        development_pd.at[index, "Signal"] = wave
  \<close>
\<close>

fun load_loop ::
  "(string \<Rightarrow> pyerr + wave \<times> nat) \<Rightarrow> 'e csv_row list \<Rightarrow> nat option
     \<Rightarrow> pyerr + wave list \<times> nat option" where
  "load_loop load [] srr = Inr ([], srr)"
| "load_loop load (row # rest) srr =
     bindE (load (csv_path row)) (\<lambda>(wave, srr').
     bindE (load_loop load rest (Some srr')) (\<lambda>(waves, srr'').
     Inr (wave # waves, srr'')))"

text \<open>What \<open>read_data\<close> returns: three values for the training data, two otherwise.\<close>

datatype 'e read_result =
    TrainData "(wave, 'e) xrow dataframe" "yrow dataframe" nat
  | TestData "(wave, nat \<times> string \<times> string \<times> 'e) xrow dataframe" nat

text \<open>Reading a local variable that was never assigned raises UnboundLocalError.\<close>

definition read_local :: "'a option \<Rightarrow> pyerr + 'a" where
  "read_local v = (case v of None \<Rightarrow> Inl UnboundLocalError | Some a \<Rightarrow> Inr a)"

definition read_data ::
  "(string \<Rightarrow> pyerr + wave \<times> nat) \<Rightarrow> 'e csv_row list \<Rightarrow> string \<Rightarrow> pyerr + 'e read_result" where
  "read_data load csv data =
     bindE (load_loop load csv None) (\<lambda>(waves, srr).
       let development_pd = zip [0..<length csv] (zip csv waves) in
       if data = ''train'' then
         let x = map (\<lambda>(index, row, wave). (index, \<lparr>Signal = wave, other = csv_extra row\<rparr>))
                   development_pd;
             y = map (\<lambda>(index, row, wave).
                   (index, \<lparr>y_action = csv_action row, y_object = csv_object row,
                            y_intention = csv_action row @ csv_object row\<rparr>)) development_pd
         in bindE (read_local srr) (\<lambda>srr. Inr (TrainData x y srr))
       else
         let x = map (\<lambda>(index, row, wave).
                   (index, \<lparr>Signal = wave,
                            other = (csv_Id row, csv_action row, csv_object row, csv_extra row)\<rparr>))
                   development_pd
         in bindE (read_local srr) (\<lambda>srr. Inr (TestData x srr)))"

subsection \<open>trim_audios\<close>

text \<open>
  The frame \<open>x\<close> is changed in place, cell by cell, and returned. As state passing: the
  argument is the state of the frame before the call, the result its state after it.
  \<^verbatim>\<open>
    for index, row in x.iterrows():
        wave, i = librosa.effects.trim(row["Signal"], top_db=top_db, hop_length=hop_length)
        x.at[index, "Signal"] = wave
    return x
  \<close>
\<close>

definition trim_audios ::
  "(wave \<Rightarrow> nat \<Rightarrow> nat \<Rightarrow> pyerr + wave) \<Rightarrow> (wave, 'o) xrow dataframe \<Rightarrow> nat \<Rightarrow> nat
     \<Rightarrow> pyerr + (wave, 'o) xrow dataframe" where
  "trim_audios trim x top_db hop_length =
     mapE (\<lambda>(index, row).
        bindE (trim (Signal row) top_db hop_length) (\<lambda>wave.
        Inr (index, row\<lparr>Signal := wave\<rparr>))) x"

text \<open>
  The same call on a store of frames, where the aliasing shows: \<open>x\<close> is a reference, the
  frame it refers to is overwritten, and the reference returned is \<open>x\<close> itself.
\<close>

type_synonym 'o store = "nat \<Rightarrow> (wave, 'o) xrow dataframe"

definition trim_audios_store ::
  "(wave \<Rightarrow> nat \<Rightarrow> nat \<Rightarrow> pyerr + wave) \<Rightarrow> 'o store \<Rightarrow> nat \<Rightarrow> nat \<Rightarrow> nat
     \<Rightarrow> pyerr + 'o store \<times> nat" where
  "trim_audios_store trim st x top_db hop_length =
     bindE (trim_audios trim (st x) top_db hop_length) (\<lambda>x'. Inr (st(x := x'), x))"

subsection \<open>remove_outliers\<close>

text \<open>
  The names \<open>X_trimed\<close> and \<open>srr\<close> in the body of \<open>remove_outliers\<close> are not parameters
  and are not assigned in the body, so Python looks them up in the notebook's global
  namespace at the time of the call; a name that is not defined there raises NameError.
\<close>

record 'o globals =
  g_X_trimed :: "(wave, 'o) xrow dataframe option"
  g_srr :: "nat option"

definition read_global :: "'a option \<Rightarrow> pyerr + 'a" where
  "read_global v = (case v of None \<Rightarrow> Inl NameError | Some a \<Rightarrow> Inr a)"

text \<open>\<open>librosa.get_duration(y, sr=sr)\<close> of a waveform: the number of samples over the rate.\<close>

definition get_duration :: "wave \<Rightarrow> nat \<Rightarrow> pyerr + rat" where
  "get_duration y sr =
     (if sr = 0 then Inl ZeroDivisionError else Inr (of_nat (length y) / of_nat sr))"

text \<open>\<open>np.where(np.array(t) > v)[0]\<close>: the positions of the entries greater than \<open>v\<close>.\<close>

definition np_where_gt :: "rat list \<Rightarrow> rat \<Rightarrow> nat list" where
  "np_where_gt t v = filter (\<lambda>i. t ! i > v) [0..<length t]"

text \<open>
  \<open>df.copy().drop(labels, axis=0)\<close>: the rows whose index label is listed are removed from
  a copy; pandas raises KeyError when a listed label is not in the index.
\<close>

definition drop_rows :: "'r dataframe \<Rightarrow> nat list \<Rightarrow> pyerr + 'r dataframe" where
  "drop_rows df labels =
     (if set labels \<subseteq> set (map fst df)
      then Inr (filter (\<lambda>(index, row). index \<notin> set labels) df)
      else Inl KeyError)"

definition remove_outliers ::
  "'o globals \<Rightarrow> 'r dataframe \<Rightarrow> 'q dataframe \<Rightarrow> rat \<Rightarrow> pyerr + 'r dataframe \<times> 'q dataframe" where
  "remove_outliers g x y max_length =
     bindE (read_global (g_X_trimed g)) (\<lambda>X_trimed.
     bindE (mapE (\<lambda>(index, row).
              bindE (read_global (g_srr g)) (\<lambda>srr. get_duration (Signal row) srr)) X_trimed) (\<lambda>t.
     let ouliers_index = np_where_gt t max_length in
     bindE (drop_rows x ouliers_index) (\<lambda>x_removed_ouliers.
     bindE (drop_rows y ouliers_index) (\<lambda>y_removed_ouliers.
     Inr (x_removed_ouliers, y_removed_ouliers)))))"

text \<open>The duration of a feature row at a given sample rate, for stating the properties.\<close>

definition duration :: "nat \<Rightarrow> (wave, 'o) xrow \<Rightarrow> rat" where
  "duration sr row = of_nat (length (Signal row)) / of_nat sr"

subsection \<open>convert_to_numpy\<close>

text \<open>
  \<open>x_temp_2\<close> is the list of the \<open>Signal\<close> cells in row order; for the training data the
  selected label columns are returned with it, one row of cells for each example.
  The other columns of \<open>x\<close> are opaque here, so of \<open>x_columns\<close> only the presence of
  \<open>"Signal"\<close> is modelled: reading that column from a row without it raises KeyError.
  Selecting a label column that \<open>y\<close> does not have raises KeyError, also for a frame
  without rows.
\<close>

datatype numpy_result =
    XOnly "ndarray list"
  | XandY "ndarray list" "string list list"

definition y_column :: "yrow \<Rightarrow> string \<Rightarrow> pyerr + string" where
  "y_column row c =
     (if c = ''action'' then Inr (y_action row)
      else if c = ''object'' then Inr (y_object row)
      else if c = ''intention'' then Inr (y_intention row)
      else Inl KeyError)"

definition convert_to_numpy ::
  "(ndarray, 'o) xrow dataframe \<Rightarrow> string list \<Rightarrow> yrow dataframe option \<Rightarrow> string list
     \<Rightarrow> string \<Rightarrow> pyerr + numpy_result" where
  "convert_to_numpy x x_columns y y_columns data =
     bindE (mapE (\<lambda>(index, row).
              if ''Signal'' \<in> set x_columns then Inr (Signal row) else Inl KeyError) x) (\<lambda>x_temp_2.
     if data \<noteq> ''train'' then Inr (XOnly x_temp_2)
     else (case y of
             None \<Rightarrow> Inl TypeError
           | Some y \<Rightarrow>
               if set y_columns \<subseteq> {''action'', ''object'', ''intention''}
               then bindE (mapE (\<lambda>(index, row). mapE (y_column row) y_columns) y) (\<lambda>y_temp.
                    Inr (XandY x_temp_2 y_temp))
               else Inl KeyError))"

subsection \<open>Label encoding: convert_y_to_oneHot\<close>

text \<open>
  scikit-learn's LabelEncoder holds \<open>classes_\<close>, the sorted distinct labels it was fitted
  on; the code of a label is its position in \<open>classes_\<close>.
\<close>

record 'a LabelEncoder =
  classes :: "'a list"

definition index_of :: "'a list \<Rightarrow> 'a \<Rightarrow> nat" where
  "index_of xs a = length (takeWhile (\<lambda>b. b \<noteq> a) xs)"

text \<open>
  \<open>fit_transform\<close> first flattens a column vector of shape \<open>(N, 1)\<close> (\<open>column_or_1d\<close>) and
  raises ValueError for any other two-dimensional input.
\<close>

definition column_or_1d :: "'a list list \<Rightarrow> pyerr + 'a list" where
  "column_or_1d y = (if list_all (\<lambda>r. length r = 1) y then Inr (map hd y) else Inl ValueError)"

definition fit_transform :: "'a::linorder list \<Rightarrow> 'a LabelEncoder \<times> nat list" where
  "fit_transform y = (let cl = sort (remdups y) in (\<lparr>classes = cl\<rparr>, map (index_of cl) y))"

text \<open>Python's \<open>max\<close> raises ValueError on an empty sequence.\<close>

definition py_max :: "nat list \<Rightarrow> pyerr + nat" where
  "py_max xs = (if xs = [] then Inl ValueError else Inr (Max (set xs)))"

text \<open>
  \<open>to_categorical(y, num_classes)\<close>: a row of \<open>num_classes\<close> zeros for each code, with a
  one at the position of the code; a code that does not fit raises IndexError.
\<close>

definition to_categorical :: "nat list \<Rightarrow> nat \<Rightarrow> pyerr + rat list list" where
  "to_categorical y num_classes =
     mapE (\<lambda>c. if c < num_classes then Inr ((replicate num_classes 0)[c := 1])
                else Inl IndexError) y"

text \<open>
  \<^verbatim>\<open>
    le = LabelEncoder()
    temp = le.fit_transform(y)
    y_oneHot = to_categorical(temp, num_classes=max(temp) + 1)
    return y_oneHot, le
  \<close>
\<close>

definition convert_y_to_oneHot ::
  "'a::linorder list list \<Rightarrow> pyerr + rat list list \<times> 'a LabelEncoder" where
  "convert_y_to_oneHot y =
     bindE (column_or_1d y) (\<lambda>y1.
     (case fit_transform y1 of (le, temp) \<Rightarrow>
        bindE (py_max temp) (\<lambda>m.
        bindE (to_categorical temp (m + 1)) (\<lambda>y_oneHot.
        Inr (y_oneHot, le)))))"

text \<open>
  \<open>np.argmax\<close> of one row: the first position of the largest entry; ValueError for an empty
  row. \<open>np.argmax(predicted_y, axis=1)\<close> does this for every row.
\<close>

definition np_argmax :: "rat list \<Rightarrow> pyerr + nat" where
  "np_argmax v = (if v = [] then Inl ValueError else Inr (index_of v (Max (set v))))"

text \<open>
  \<open>le.inverse_transform(codes)\<close>: scikit-learn raises ValueError ("y contains previously
  unseen labels") when a code is outside \<open>0..len(classes_)-1\<close>, and otherwise returns the
  class at each code.
\<close>

definition inverse_transform :: "'a LabelEncoder \<Rightarrow> nat list \<Rightarrow> pyerr + 'a list" where
  "inverse_transform le codes =
     (if list_all (\<lambda>c. c < length (classes le)) codes
      then Inr (map (\<lambda>c. classes le ! c) codes)
      else Inl ValueError)"

subsection \<open>test_output_csv\<close>

text \<open>
  The loaded network is the parameter \<open>predict\<close>. The result of the model is the table
  that \<open>df.to_csv(output_csv_path, index=False)\<close> writes: the rows \<open>(Id, Predicted)\<close>,
  where \<open>Id\<close> is the index of the frame built from the predicted strings.
\<close>

definition test_output_csv ::
  "(ndarray list \<Rightarrow> pyerr + rat list list) \<Rightarrow> (string \<Rightarrow> pyerr + wave \<times> nat)
     \<Rightarrow> (wave \<Rightarrow> nat \<Rightarrow> nat \<Rightarrow> pyerr + wave) \<Rightarrow> (wave \<Rightarrow> nat \<Rightarrow> pyerr + ndarray)
     \<Rightarrow> 'e csv_row list \<Rightarrow> string LabelEncoder \<Rightarrow> rat \<Rightarrow> nat \<Rightarrow> nat
     \<Rightarrow> pyerr + (nat \<times> string) list" where
  "test_output_csv predict load trim mfcc evaluate_csv le max_audio_length top_db hop_length =
     bindE (read_data load evaluate_csv ''Not_train'') (\<lambda>r.
     (case r of
        TrainData x y srr \<Rightarrow> Inl ValueError
      | TestData x_test srr_test \<Rightarrow>
          bindE (trim_audios trim x_test top_db hop_length) (\<lambda>X_test_trimed.
          bindE (convert_to_mfcc mfcc X_test_trimed srr_test max_audio_length) (\<lambda>X_mfcc_test.
          bindE (convert_to_numpy X_mfcc_test [''Signal''] None [] ''not train'') (\<lambda>n.
          (case n of
             XandY a b \<Rightarrow> Inl TypeError
           | XOnly X_n_test \<Rightarrow>
               bindE (predict X_n_test) (\<lambda>predicted_y.
               bindE (mapE np_argmax predicted_y) (\<lambda>predicted_y.
               bindE (inverse_transform le predicted_y) (\<lambda>predicted_y_string.
               Inr (zip [0..<length predicted_y_string] predicted_y_string))))))))))"

subsection \<open>The training cell\<close>




subsection \<open>Instances of the parameters, for the examples\<close>

text \<open>
  An instance of the \<open>mfcc\<close> parameter for the examples: \<open>n\<close> coefficients and librosa's
  number of frames for a centred transform with hop 512, \<open>1 + len(y) // 512\<close>.
\<close>

definition frames_only_mfcc :: "nat \<Rightarrow> wave \<Rightarrow> nat \<Rightarrow> pyerr + ndarray" where
  "frames_only_mfcc n w srr =
     Inr \<lparr>nrows = n, ncols = 1 + length w div 512,
          cells = replicate n (replicate (1 + length w div 512) 1)\<rparr>"



text \<open>A column of intention labels, as \<open>convert_to_numpy\<close> returns it.\<close>

definition intention_column :: "string list list" where
  "intention_column = [[''onlight''], [''offlight''], [''onlight''], [''upvolume'']]"

text \<open>
  An instance of \<open>load\<close>: two audio files with different native sample rates.
\<close>

definition two_files :: "string \<Rightarrow> pyerr + wave \<times> nat" where
  "two_files p =
     (if p = ''a.wav'' then Inr ([0, 1, 0], 8000)
      else if p = ''b.wav'' then Inr ([0, 0, 1, 1], 16000)
      else Inl ExternalError)"

text \<open>A CSV file listing the two files.\<close>

definition two_rows :: "unit csv_row list" where
  "two_rows =
     [\<lparr>csv_path = ''a.wav'', csv_Id = 0, csv_action = ''on'', csv_object = ''light'', csv_extra = ()\<rparr>,
      \<lparr>csv_path = ''b.wav'', csv_Id = 1, csv_action = ''off'', csv_object = ''light'', csv_extra = ()\<rparr>]"

text \<open>
  Three recordings of 2, 4 and 8 samples: at 2 Hz they last one, two and four seconds.
\<close>

definition one_two_four :: "(wave, unit) xrow dataframe" where
  "one_two_four =
     [(0, \<lparr>Signal = [0, 0], other = ()\<rparr>),
      (1, \<lparr>Signal = [0, 0, 0, 0], other = ()\<rparr>),
      (2, \<lparr>Signal = [0, 0, 0, 0, 0, 0, 0, 0], other = ()\<rparr>)]"

text \<open>Their labels, as a parallel frame.\<close>

definition three_labels :: "string dataframe" where
  "three_labels = [(0, ''onlight''), (1, ''offlight''), (2, ''upvolume'')]"

text \<open>Another data set: recordings of four, one and one seconds at 2 Hz.\<close>

definition four_one_one :: "(wave, unit) xrow dataframe" where
  "four_one_one =
     [(0, \<lparr>Signal = [0, 0, 0, 0, 0, 0, 0, 0], other = ()\<rparr>),
      (1, \<lparr>Signal = [0, 0], other = ()\<rparr>),
      (2, \<lparr>Signal = [0, 0], other = ()\<rparr>)]"

text \<open>
  An instance of \<open>trim\<close>: it cuts the leading and the trailing samples that are exactly
  zero (librosa cuts the leading and trailing frames whose energy is below the threshold).
\<close>

definition trim_zero_samples :: "wave \<Rightarrow> nat \<Rightarrow> nat \<Rightarrow> pyerr + wave" where
  "trim_zero_samples w top_db hop_length =
     Inr (rev (dropWhile (\<lambda>s. s = 0) (rev (dropWhile (\<lambda>s. s = 0) w))))"

text \<open>A store whose reference 0 holds a frame of one recording.\<close>

definition one_clip :: "unit store" where
  "one_clip = (\<lambda>r. if r = 0 then [(0, \<lparr>Signal = [0, 1, 0], other = ()\<rparr>)] else [])"

text \<open>
  Instances of \<open>predict\<close>: a network with two outputs that always scores the second
  class highest, and one with three outputs that always scores the third class highest.
\<close>

definition second_class_network :: "ndarray list \<Rightarrow> pyerr + rat list list" where
  "second_class_network batch = Inr (map (\<lambda>m. [0, 1]) batch)"

definition third_class_network :: "ndarray list \<Rightarrow> pyerr + rat list list" where
  "third_class_network batch = Inr (map (\<lambda>m. [0, 0, 1]) batch)"

text \<open>An encoder fitted on two labels.\<close>

definition two_classes :: "string LabelEncoder" where
  "two_classes = \<lparr>classes = [''offlight'', ''onlight'']\<rparr>"

text \<open>
  Two frames with the same index labels and the same \<open>Signal\<close> cells, whatever their
  other columns hold (for stating that the other columns are not read).
\<close>

definition same_signals :: "('s, 'o) xrow dataframe \<Rightarrow> ('s, 'p) xrow dataframe \<Rightarrow> bool" where
  "same_signals x x' =
     list_all2 (\<lambda>a b. fst a = fst b \<and> Signal (snd a) = Signal (snd b)) x x'"

text \<open>
  The same two files in an evaluation file whose rows carry a label, \<open>singsong\<close>, that
  the encoder \<open>two_classes\<close> was not fitted on.
\<close>

definition unseen_rows :: "unit csv_row list" where
  "unseen_rows =
     [\<lparr>csv_path = ''a.wav'', csv_Id = 0, csv_action = ''sing'', csv_object = ''song'', csv_extra = ()\<rparr>,
      \<lparr>csv_path = ''b.wav'', csv_Id = 1, csv_action = ''sing'', csv_object = ''song'', csv_extra = ()\<rparr>]"

section \<open>Properties\<close>

subsection \<open>Helper lemmas\<close>

lemma bindE_Inr [simp]: "bindE (Inr v) f = f v"
  by (simp add: bindE_def)

lemma bindE_Inl [simp]: "bindE (Inl e) f = Inl e"
  by (simp add: bindE_def)

lemma mapE_all_Inr:
  assumes "\<forall>a \<in> set as. f a = Inr (g a)"
  shows "mapE f as = Inr (map g as)"
  using assms by (induction as) simp_all









subsection \<open>The fixed shape of the MFCC matrices\<close>





subsection \<open>Label encoding\<close>

lemma index_of_less: "a \<in> set xs \<Longrightarrow> index_of xs a < length xs"
  by (induction xs) (auto simp: index_of_def)

lemma nth_index_of: "a \<in> set xs \<Longrightarrow> xs ! index_of xs a = a"
  by (induction xs) (auto simp: index_of_def)

lemma index_of_nth: "distinct xs \<Longrightarrow> i < length xs \<Longrightarrow> index_of xs (xs ! i) = i"
proof (induction xs arbitrary: i)
  case Nil then show ?case by simp
next
  case (Cons x xs)
  show ?case
  proof (cases i)
    case 0 then show ?thesis by (simp add: index_of_def)
  next
    case (Suc j)
    with Cons.prems have j: "j < length xs" "xs ! j \<noteq> x" "distinct xs" by auto
    from Cons.IH [OF j(3) j(1)] have "index_of xs (xs ! j) = j" .
    then show ?thesis using Suc j(2) by (simp add: index_of_def)
  qed
qed

lemma index_of_append_hit: "a \<notin> set xs \<Longrightarrow> index_of (xs @ a # ys) a = length xs"
  by (induction xs) (auto simp: index_of_def)

lemma onehot_split:
  assumes "c < n"
  shows "(replicate n (0::rat))[c := 1] = replicate c 0 @ 1 # replicate (n - Suc c) 0"
  using assms by (simp add: list_eq_iff_nth_eq nth_list_update nth_append nth_Cons')

lemma index_of_onehot:
  assumes "c < n"
  shows "index_of ((replicate n (0::rat))[c := 1]) 1 = c"
  using assms by (simp add: onehot_split index_of_append_hit)

lemma Max_onehot:
  assumes "c < n"
  shows "Max (set ((replicate n (0::rat))[c := 1])) = 1"
proof -
  have "set ((replicate n (0::rat))[c := 1]) \<subseteq> {0, 1}" "1 \<in> set ((replicate n (0::rat))[c := 1])"
    using assms by (auto simp: onehot_split)
  then show ?thesis
    by (intro Max_eqI) auto
qed

lemma np_argmax_onehot:
  assumes "c < n"
  shows "np_argmax ((replicate n 0)[c := 1]) = Inr c"
  using assms by (simp add: np_argmax_def Max_onehot index_of_onehot)

lemma to_categorical_Inr:
  assumes "\<forall>c \<in> set y. c < n"
  shows "to_categorical y n = Inr (map (\<lambda>c. (replicate n 0)[c := 1]) y)"
  unfolding to_categorical_def using assms by (intro mapE_all_Inr) simp

lemma mapE_argmax_onehot:
  assumes "\<forall>c \<in> set y. c < n"
  shows "mapE np_argmax (map (\<lambda>c. (replicate n 0)[c := 1]) y) = Inr y"
  using assms by (induction y) (simp_all add: np_argmax_onehot)

lemma Max_codes:
  assumes d: "distinct cl" and s: "set cl = set y" and "y \<noteq> []"
  shows "Max (set (map (index_of cl) y)) + 1 = length cl"
proof -
  have ne: "cl \<noteq> []" using assms by (metis set_empty)
  then have l: "last cl \<in> set y" using s last_in_set by blast
  have p: "length cl - 1 < length cl" using ne by simp
  have "index_of cl (cl ! (length cl - 1)) = length cl - 1"
    using d p by (rule index_of_nth)
  then have "index_of cl (last cl) = length cl - 1"
    using ne by (simp add: last_conv_nth)
  then have a: "length cl - 1 \<in> set (map (index_of cl) y)" using l by force
  have b: "\<forall>c \<in> set (map (index_of cl) y). c \<le> length cl - 1"
    using index_of_less [of _ cl] s by fastforce
  have "Max (set (map (index_of cl) y)) = length cl - 1"
    using a b by (intro Max_eqI) auto
  then show ?thesis using p by simp
qed

lemma convert_y_to_oneHot_result:
  assumes "y \<noteq> []" and "list_all (\<lambda>r. length r = 1) y"
  shows "convert_y_to_oneHot y =
     Inr (map (\<lambda>l. (replicate (length (sort (remdups (map hd y)))) 0)
                      [index_of (sort (remdups (map hd y))) l := 1]) (map hd y),
          \<lparr>classes = sort (remdups (map hd y))\<rparr>)"
proof -
  let ?y1 = "map hd y"
  let ?cl = "sort (remdups ?y1)"
  let ?temp = "map (index_of ?cl) ?y1"
  have d: "distinct ?cl" and s: "set ?cl = set ?y1" by simp_all
  have ne: "?y1 \<noteq> []" using assms(1) by simp
  have m: "Max (set ?temp) + 1 = length ?cl" using d s ne by (rule Max_codes)
  have lt: "\<forall>c \<in> set ?temp. c < length ?cl"
    using index_of_less [of _ ?cl] s by fastforce
  have tc: "to_categorical ?temp (length ?cl) = Inr (map (\<lambda>c. (replicate (length ?cl) 0)[c := 1]) ?temp)"
    using lt by (rule to_categorical_Inr)
  have pm: "py_max ?temp = Inr (Max (set ?temp))" using ne by (simp add: py_max_def)
  have "convert_y_to_oneHot y = Inr (map (\<lambda>c. (replicate (length ?cl) 0)[c := 1]) ?temp, \<lparr>classes = ?cl\<rparr>)"
    unfolding convert_y_to_oneHot_def column_or_1d_def fit_transform_def Let_def
    using assms(2) pm m tc by (simp del: length_sort length_remdups_eq)
  then show ?thesis by (simp add: comp_def del: length_sort)
qed

lemma argmax_codes:
  assumes "set y1 \<subseteq> set cl"
  shows "mapE np_argmax (map (\<lambda>l. (replicate (length cl) 0)[index_of cl l := 1]) y1)
           = Inr (map (index_of cl) y1)"
  using assms by (induction y1) (simp_all add: np_argmax_onehot index_of_less)

lemma inverse_transform_codes:
  assumes "set y1 \<subseteq> set cl"
  shows "inverse_transform \<lparr>classes = cl\<rparr> (map (index_of cl) y1) = Inr y1"
proof -
  have "list_all (\<lambda>c. c < length cl) (map (index_of cl) y1)"
    using assms by (auto simp: list_all_iff index_of_less)
  moreover have "map (\<lambda>c. cl ! c) (map (index_of cl) y1) = y1"
    using assms by (induction y1) (simp_all add: nth_index_of)
  ultimately show ?thesis by (simp add: inverse_transform_def)
qed

lemma decode_onehot:
  assumes "set y1 \<subseteq> set cl"
  shows "bindE (mapE np_argmax (map (\<lambda>l. (replicate (length cl) 0)[index_of cl l := 1]) y1))
           (inverse_transform \<lparr>classes = cl\<rparr>) = Inr y1"
  by (simp only: argmax_codes [OF assms] bindE_Inr inverse_transform_codes [OF assms])

lemma decode_onehot_row:
  assumes "set y1 \<subseteq> set cl" and "i < length y1"
  shows "bindE (np_argmax (map (\<lambda>l. (replicate (length cl) 0)[index_of cl l := 1]) y1 ! i))
           (\<lambda>c. inverse_transform \<lparr>classes = cl\<rparr> [c]) = Inr [y1 ! i]"
proof -
  have m: "y1 ! i \<in> set cl" using assms nth_mem by blast
  have lt: "index_of cl (y1 ! i) < length cl" using m by (rule index_of_less)
  have "np_argmax (map (\<lambda>l. (replicate (length cl) 0)[index_of cl l := 1]) y1 ! i)
      = Inr (index_of cl (y1 ! i))"
    using assms(2) np_argmax_onehot [OF lt] by simp
  then show ?thesis using lt nth_index_of [OF m] by (simp add: inverse_transform_def)
qed

lemma index_of_bij:
  assumes d: "distinct cl"
  shows "bij_betw (index_of cl) (set cl) {0..<length cl}"
proof -
  have inj: "inj_on (index_of cl) (set cl)"
  proof (rule inj_onI)
    fix a b assume "a \<in> set cl" "b \<in> set cl" "index_of cl a = index_of cl b"
    then show "a = b" by (metis nth_index_of)
  qed
  have img: "index_of cl ` set cl = {0..<length cl}"
  proof
    show "index_of cl ` set cl \<subseteq> {0..<length cl}"
      using index_of_less [of _ cl] by fastforce
    show "{0..<length cl} \<subseteq> index_of cl ` set cl"
    proof
      fix i assume "i \<in> {0..<length cl}"
      then have i: "i < length cl" by simp
      then have "cl ! i \<in> set cl" by simp
      moreover have "index_of cl (cl ! i) = i" using d i by (rule index_of_nth)
      ultimately show "i \<in> index_of cl ` set cl" by force
    qed
  qed
  show ?thesis using inj img by (simp add: bij_betw_def)
qed

text \<open>
  Claim C5. For a non-empty column of training labels, \<open>convert_y_to_oneHot\<close> returns,
  and decoding its one-hot rows the way \<open>test_output_csv\<close> decodes predictions (the
  arg-max position of each row, through \<open>inverse_transform\<close> of the returned encoder)
  gives back the label column; in particular the row of every single label decodes to that
  label.
\<close>

theorem one_hot_round_trip:
  assumes "y \<noteq> []" and "list_all (\<lambda>r. length r = 1) y"
  shows "\<exists>y_oneHot le. convert_y_to_oneHot y = Inr (y_oneHot, le) \<and>
           length y_oneHot = length y \<and>
           bindE (mapE np_argmax y_oneHot) (inverse_transform le) = Inr (map hd y) \<and>
           (\<forall>i < length y. bindE (np_argmax (y_oneHot ! i)) (\<lambda>c. inverse_transform le [c])
                              = Inr [hd (y ! i)])"
proof -
  define y1 where "y1 = map hd y"
  define cl where "cl = sort (remdups y1)"
  define oh where "oh = map (\<lambda>l. (replicate (length cl) (0::rat))[index_of cl l := 1]) y1"
  have r: "convert_y_to_oneHot y = Inr (oh, \<lparr>classes = cl\<rparr>)"
    unfolding oh_def cl_def y1_def using assms by (rule convert_y_to_oneHot_result)
  have s: "set y1 \<subseteq> set cl" by (simp add: cl_def)
  have len: "length oh = length y" by (simp add: oh_def y1_def)
  have batch: "bindE (mapE np_argmax oh) (inverse_transform \<lparr>classes = cl\<rparr>) = Inr (map hd y)"
    unfolding oh_def using decode_onehot [OF s] by (simp only: y1_def)
  have each: "\<forall>i < length y. bindE (np_argmax (oh ! i)) (\<lambda>c. inverse_transform \<lparr>classes = cl\<rparr> [c])
      = Inr [hd (y ! i)]"
  proof (intro allI impI)
    fix i assume i: "i < length y"
    then have "i < length y1" by (simp add: y1_def)
    from decode_onehot_row [OF s this] show "bindE (np_argmax (oh ! i))
        (\<lambda>c. inverse_transform \<lparr>classes = cl\<rparr> [c]) = Inr [hd (y ! i)]"
      using i by (simp add: oh_def y1_def)
  qed
  from r len batch each show ?thesis by blast
qed

text \<open>
  Claim C7. For a non-empty column of training labels with \<open>C\<close> distinct labels, the
  encoder's classes are exactly the distinct labels, the code of a label (its position in
  the classes) is a bijection between the distinct labels and \<open>0..C-1\<close>, and every
  one-hot row has width exactly \<open>C\<close>, with its one at the code of the row's label.
\<close>

theorem convert_y_to_oneHot_dense_codes:
  assumes "y \<noteq> []" and "list_all (\<lambda>r. length r = 1) y"
  shows "\<exists>y_oneHot le. convert_y_to_oneHot y = Inr (y_oneHot, le) \<and>
           distinct (classes le) \<and> set (classes le) = set (map hd y) \<and>
           length (classes le) = card (set (map hd y)) \<and>
           bij_betw (index_of (classes le)) (set (map hd y)) {0..<card (set (map hd y))} \<and>
           y_oneHot = map (\<lambda>l. (replicate (card (set (map hd y))) 0)
                                  [index_of (classes le) l := 1]) (map hd y) \<and>
           list_all (\<lambda>row. length row = card (set (map hd y))) y_oneHot"
proof -
  define y1 where "y1 = map hd y"
  define cl where "cl = sort (remdups y1)"
  define oh where "oh = map (\<lambda>l. (replicate (length cl) (0::rat))[index_of cl l := 1]) y1"
  have r: "convert_y_to_oneHot y = Inr (oh, \<lparr>classes = cl\<rparr>)"
    unfolding oh_def cl_def y1_def using assms by (rule convert_y_to_oneHot_result)
  have d: "distinct cl" and s: "set cl = set y1" by (simp_all add: cl_def)
  have c: "length cl = card (set y1)"
    using distinct_card [OF d] s by simp
  have bij: "bij_betw (index_of cl) (set y1) {0..<card (set y1)}"
    using index_of_bij [OF d] by (simp only: s c)
  have w: "list_all (\<lambda>row. length row = card (set y1)) oh"
    by (simp add: oh_def list_all_iff c)
  have oh: "oh = map (\<lambda>l. (replicate (card (set y1)) 0)[index_of cl l := 1]) y1"
    by (simp only: oh_def c)
  have "distinct (classes \<lparr>classes = cl\<rparr>) \<and> set (classes \<lparr>classes = cl\<rparr>) = set y1 \<and>
        length (classes \<lparr>classes = cl\<rparr>) = card (set y1) \<and>
        bij_betw (index_of (classes \<lparr>classes = cl\<rparr>)) (set y1) {0..<card (set y1)} \<and>
        oh = map (\<lambda>l. (replicate (card (set y1)) 0)[index_of (classes \<lparr>classes = cl\<rparr>) l := 1]) y1 \<and>
        list_all (\<lambda>row. length row = card (set y1)) oh"
    using d s c bij w oh by simp
  with r show ?thesis unfolding y1_def by blast
qed

lemma intention_column_result:
  "convert_y_to_oneHot intention_column =
     Inr ([[0, 1, 0], [1, 0, 0], [0, 1, 0], [0, 0, 1]],
          \<lparr>classes = [''offlight'', ''onlight'', ''upvolume'']\<rparr>)"
  unfolding intention_column_def by code_simp

theorem one_hot_round_trip_witness:
  "intention_column \<noteq> [] \<and> list_all (\<lambda>r. length r = 1) intention_column \<and>
   (\<exists>y_oneHot le. convert_y_to_oneHot intention_column = Inr (y_oneHot, le) \<and>
           length y_oneHot = length intention_column \<and>
           bindE (mapE np_argmax y_oneHot) (inverse_transform le) = Inr (map hd intention_column) \<and>
           (\<forall>i < length intention_column. bindE (np_argmax (y_oneHot ! i)) (\<lambda>c. inverse_transform le [c])
                              = Inr [hd (intention_column ! i)]))"
proof -
  have h1: "intention_column \<noteq> []" by (simp add: intention_column_def)
  have h2: "list_all (\<lambda>r. length r = 1) intention_column" by (simp add: intention_column_def)
  show ?thesis using h1 h2 one_hot_round_trip [OF h1 h2] by blast
qed

theorem convert_y_to_oneHot_dense_codes_witness:
  "intention_column \<noteq> [] \<and> list_all (\<lambda>r. length r = 1) intention_column \<and>
   (\<exists>y_oneHot le. convert_y_to_oneHot intention_column = Inr (y_oneHot, le) \<and>
           distinct (classes le) \<and> set (classes le) = set (map hd intention_column) \<and>
           length (classes le) = card (set (map hd intention_column)) \<and>
           bij_betw (index_of (classes le)) (set (map hd intention_column))
              {0..<card (set (map hd intention_column))} \<and>
           y_oneHot = map (\<lambda>l. (replicate (card (set (map hd intention_column))) 0)
                                  [index_of (classes le) l := 1]) (map hd intention_column) \<and>
           list_all (\<lambda>row. length row = card (set (map hd intention_column))) y_oneHot)"
proof -
  have h1: "intention_column \<noteq> []" by (simp add: intention_column_def)
  have h2: "list_all (\<lambda>r. length r = 1) intention_column" by (simp add: intention_column_def)
  show ?thesis using h1 h2 convert_y_to_oneHot_dense_codes [OF h1 h2] by blast
qed

subsection \<open>The sample rate that read_data returns\<close>

lemma load_loop_all:
  assumes "\<forall>row \<in> set csv. load (csv_path row) = Inr (wave_of row, rate_of row)"
  shows "load_loop load csv srr =
     Inr (map wave_of csv, if csv = [] then srr else Some (rate_of (last csv)))"
  using assms by (induction csv arbitrary: srr) simp_all

lemma zip_rows_waves:
  "map f (zip [0..<length csv] (zip csv (map w csv))) =
   map (\<lambda>(index, row). f (index, row, w row)) (zip [0..<length csv] csv)"
proof -
  have "zip csv (map w csv) = map (\<lambda>row. (row, w row)) csv"
    by (induction csv) simp_all
  then show ?thesis by (simp add: zip_map2 case_prod_unfold)
qed


lemma read_data_test:
  assumes "csv \<noteq> []" and "data \<noteq> ''train''"
    and "\<forall>row \<in> set csv. load (csv_path row) = Inr (wave_of row, rate_of row)"
  shows "read_data load csv data =
     Inr (TestData
       (map (\<lambda>(index, row). (index, \<lparr>Signal = wave_of row,
               other = (csv_Id row, csv_action row, csv_object row, csv_extra row)\<rparr>))
          (zip [0..<length csv] csv))
       (rate_of (last csv)))"
  using assms(1,2)
  by (simp add: read_data_def load_loop_all [OF assms(3)] read_local_def zip_rows_waves Let_def)

lemma read_data_empty: "read_data load [] data = Inl UnboundLocalError"
  by (simp add: read_data_def read_local_def)



subsection \<open>remove_outliers\<close>

text \<open>
  Claim C3 fails on the code. \<open>remove_outliers\<close> measures the rows of the global
  \<open>X_trimed\<close>, not the rows of its argument \<open>x\<close>. Called on recordings of one, two and
  four seconds with \<open>max_length = 3\<close> while the global \<open>X_trimed\<close> holds recordings of
  four, one and one seconds, it drops the one-second recording and keeps the one of four
  seconds, whose duration exceeds \<open>max_length\<close>.
\<close>

theorem remove_outliers_retains_long:
  "remove_outliers \<lparr>g_X_trimed = Some four_one_one, g_srr = Some 2\<rparr> one_two_four three_labels 3 =
     Inr ([(1, \<lparr>Signal = [0, 0, 0, 0], other = ()\<rparr>),
           (2, \<lparr>Signal = [0, 0, 0, 0, 0, 0, 0, 0], other = ()\<rparr>)],
          [(1, ''offlight''), (2, ''upvolume'')]) \<and>
   duration 2 \<lparr>Signal = [0, 0, 0, 0, 0, 0, 0, 0], other = ()\<rparr> = 4"
  by code_simp

text \<open>
  Claim C4 fails on the code. Three calls with the same arguments \<open>x\<close>, \<open>y\<close> and
  \<open>max_length\<close> give three different results, depending on the globals \<open>X_trimed\<close>
  and \<open>srr\<close> only.
\<close>

theorem remove_outliers_reads_globals:
  "remove_outliers \<lparr>g_X_trimed = Some one_two_four, g_srr = Some 2\<rparr> one_two_four three_labels 3 =
     Inr ([(0, \<lparr>Signal = [0, 0], other = ()\<rparr>), (1, \<lparr>Signal = [0, 0, 0, 0], other = ()\<rparr>)],
          [(0, ''onlight''), (1, ''offlight'')]) \<and>
   remove_outliers \<lparr>g_X_trimed = Some one_two_four, g_srr = Some 1\<rparr> one_two_four three_labels 3 =
     Inr ([(0, \<lparr>Signal = [0, 0], other = ()\<rparr>)], [(0, ''onlight'')]) \<and>
   remove_outliers \<lparr>g_X_trimed = (None :: (wave, unit) xrow dataframe option), g_srr = Some 2\<rparr>
       one_two_four three_labels 3 = Inl NameError"
  by code_simp

text \<open>
  Where the notebook calls \<open>remove_outliers\<close>, the global \<open>X_trimed\<close> is the argument
  \<open>x\<close> itself, the global \<open>srr\<close> is the rate of the data, and both frames carry the
  labels \<open>0..n-1\<close> of \<open>read_csv\<close>. There the recordings kept are those of duration at
  most \<open>max_length\<close>, in their order, and the same labels are kept on both sides.
\<close>

lemma range_index_nth:
  assumes "map fst x = [0..<length x]" and "(i, row) \<in> set x"
  shows "i < length x \<and> x ! i = (i, row)"
proof -
  from assms(2) obtain k where k: "k < length x" "x ! k = (i, row)"
    by (auto simp: in_set_conv_nth)
  have "fst (x ! k) = map fst x ! k" using k(1) by simp
  also have "\<dots> = k" using k(1) by (simp add: assms(1))
  finally have "i = k" using k(2) by simp
  then show ?thesis using k by simp
qed

lemma np_where_gt_set: "set (np_where_gt t v) = {i. i < length t \<and> t ! i > v}"
  by (auto simp: np_where_gt_def)

lemma drop_rows_range:
  assumes "map fst df = [0..<n]"
  shows "drop_rows df (np_where_gt t v) =
     (if \<forall>i < length t. t ! i > v \<longrightarrow> i < n
      then Inr (filter (\<lambda>(index, row). \<not> (index < length t \<and> t ! index > v)) df)
      else Inl KeyError)"
proof -
  have "set (np_where_gt t v) \<subseteq> set (map fst df) \<longleftrightarrow> (\<forall>i < length t. t ! i > v \<longrightarrow> i < n)"
    by (auto simp: assms np_where_gt_set)
  then show ?thesis
    by (simp add: drop_rows_def np_where_gt_set del: set_map)
qed

lemma durations_Inr:
  assumes "0 < sr"
  shows "mapE (\<lambda>(index, row). bindE (read_global (Some sr)) (\<lambda>srr. get_duration (Signal row) srr)) x
    = Inr (map (\<lambda>(index, row). duration sr row) x)"
  using assms
  by (intro mapE_all_Inr) (auto simp: read_global_def get_duration_def duration_def)

lemma remove_outliers_aligned:
  assumes g: "g_X_trimed g = Some x" "g_srr g = Some sr" "0 < sr"
    and ix: "map fst x = [0..<length x]" and iy: "map fst y = [0..<length x]"
  shows "remove_outliers g x y max_length =
     Inr (filter (\<lambda>(index, row). duration sr row \<le> max_length) x,
          filter (\<lambda>(index, l). duration sr (snd (x ! index)) \<le> max_length) y)"
proof -
  let ?t = "map (\<lambda>(index, row). duration sr row) x"
  have ly: "length y = length x" using iy by (metis length_map length_upt minus_nat.diff_0)
  have ok: "\<forall>i < length ?t. ?t ! i > max_length \<longrightarrow> i < length x" by simp
  have dx: "drop_rows x (np_where_gt ?t max_length) =
      Inr (filter (\<lambda>(index, row). \<not> (index < length ?t \<and> ?t ! index > max_length)) x)"
    using drop_rows_range [OF ix, of ?t max_length] ok by simp
  have dy: "drop_rows y (np_where_gt ?t max_length) =
      Inr (filter (\<lambda>(index, row). \<not> (index < length ?t \<and> ?t ! index > max_length)) y)"
    using drop_rows_range [OF iy, of ?t max_length] ok by simp
  have fx: "filter (\<lambda>(index, row). \<not> (index < length ?t \<and> ?t ! index > max_length)) x
      = filter (\<lambda>(index, row). duration sr row \<le> max_length) x"
  proof (rule filter_cong [OF refl])
    fix p assume p: "p \<in> set x"
    obtain i row where pr: "p = (i, row)" by (cases p)
    from range_index_nth [OF ix] p pr have "i < length x" "x ! i = (i, row)" by auto
    then show "(case p of (index, row) \<Rightarrow> \<not> (index < length ?t \<and> ?t ! index > max_length))
       = (case p of (index, row) \<Rightarrow> duration sr row \<le> max_length)"
      by (auto simp: pr)
  qed
  have fy: "filter (\<lambda>(index, row). \<not> (index < length ?t \<and> ?t ! index > max_length)) y
      = filter (\<lambda>(index, l). duration sr (snd (x ! index)) \<le> max_length) y"
  proof (rule filter_cong [OF refl])
    fix p assume p: "p \<in> set y"
    obtain i l where pr: "p = (i, l)" by (cases p)
    have "map fst y = [0..<length y]" using iy ly by simp
    from range_index_nth [OF this] p pr have "i < length x" using ly by auto
    then show "(case p of (index, row) \<Rightarrow> \<not> (index < length ?t \<and> ?t ! index > max_length))
       = (case p of (index, l) \<Rightarrow> duration sr (snd (x ! index)) \<le> max_length)"
      by (auto simp: pr case_prod_unfold)
  qed
  have rg: "read_global (g_X_trimed g) = Inr x" by (simp add: g read_global_def)
  have du: "mapE (\<lambda>(index, row).
      bindE (read_global (g_srr g)) (\<lambda>srr. get_duration (Signal row) srr)) x = Inr ?t"
    by (simp only: g(2) durations_Inr [OF g(3)])
  show ?thesis
    by (simp only: remove_outliers_def rg du bindE_Inr Let_def dx dy fx fy)
qed

lemma remove_outliers_aligned_index:
  assumes ix: "map fst x = [0..<length x]" and iy: "map fst y = [0..<length x]"
  shows "map fst (filter (\<lambda>(index, row). duration sr row \<le> max_length) x) =
         map fst (filter (\<lambda>(index, l). duration sr (snd (x ! index)) \<le> max_length) y)"
proof -
  let ?Q = "\<lambda>i. duration sr (snd (x ! i)) \<le> max_length"
  have "filter (\<lambda>(index, row). duration sr row \<le> max_length) x = filter (?Q \<circ> fst) x"
  proof (rule filter_cong [OF refl])
    fix p assume p: "p \<in> set x"
    obtain i row where pr: "p = (i, row)" by (cases p)
    from range_index_nth [OF ix] p pr have "x ! i = (i, row)" by auto
    then show "(case p of (index, row) \<Rightarrow> duration sr row \<le> max_length) = (?Q \<circ> fst) p"
      by (simp add: pr)
  qed
  moreover have "filter (\<lambda>(index, l). ?Q index) y = filter (?Q \<circ> fst) y"
    by (simp add: case_prod_unfold comp_def)
  ultimately show ?thesis
    by (simp only: filter_map [symmetric] ix iy)
qed

subsection \<open>trim_audios changes its argument in place\<close>

lemma trim_audios_rows:
  assumes "\<forall>(index, row) \<in> set x. trim (Signal row) top_db hop_length = Inr (trimmed (Signal row))"
  shows "trim_audios trim x top_db hop_length =
     Inr (map (\<lambda>(index, row). (index, row\<lparr>Signal := trimmed (Signal row)\<rparr>)) x)"
  unfolding trim_audios_def using assms by (intro mapE_all_Inr) auto

lemma one_clip_trimmed:
  "trim_audios trim_zero_samples (one_clip 0) 30 50 = Inr [(0, \<lparr>Signal = [1], other = ()\<rparr>)]"
  by (simp add: one_clip_def trim_audios_def trim_zero_samples_def)

text \<open>
  Claim C8, as amended. \<open>trim_audios\<close> returns the reference it was given; after the call
  the frame at that reference holds the trimmed samples in place of the original ones, with
  the index labels and the other columns unchanged, and no other frame of the store is
  changed. A frame holds no sample rate: \<open>trim_audios\<close> neither receives nor returns one.
\<close>

theorem trim_audios_store_overwrites:
  assumes "\<forall>(index, row) \<in> set (st x).
             trim (Signal row) top_db hop_length = Inr (trimmed (Signal row))"
  shows "trim_audios_store trim st x top_db hop_length =
     Inr (st(x := map (\<lambda>(index, row). (index, row\<lparr>Signal := trimmed (Signal row)\<rparr>)) (st x)), x)"
proof -
  have "trim_audios trim (st x) top_db hop_length =
      Inr (map (\<lambda>(index, row). (index, row\<lparr>Signal := trimmed (Signal row)\<rparr>)) (st x))"
    using assms by (rule trim_audios_rows [where trimmed = trimmed])
  then show ?thesis by (simp add: trim_audios_store_def)
qed

text \<open>
  Claim C8 as stated fails: after the call, the frame that was passed in holds the trimmed
  samples \<open>[1]\<close>, not the original samples \<open>[0, 1, 0]\<close>.
\<close>

theorem trim_audios_store_mutates:
  "trim_audios_store trim_zero_samples one_clip 0 30 50 =
     Inr (one_clip(0 := [(0, \<lparr>Signal = [1], other = ()\<rparr>)]), 0) \<and>
   one_clip 0 = [(0, \<lparr>Signal = [0, 1, 0], other = ()\<rparr>)] \<and>
   (one_clip(0 := [(0, \<lparr>Signal = [1], other = ()\<rparr>)])) 0 \<noteq> one_clip 0"
proof (intro conjI)
  show "trim_audios_store trim_zero_samples one_clip 0 30 50 =
     Inr (one_clip(0 := [(0, \<lparr>Signal = [1], other = ()\<rparr>)]), 0)"
    by (simp add: trim_audios_store_def one_clip_trimmed)
  show "one_clip 0 = [(0, \<lparr>Signal = [0, 1, 0], other = ()\<rparr>)]"
    by (simp add: one_clip_def)
  show "(one_clip(0 := [(0, \<lparr>Signal = [1], other = ()\<rparr>)])) 0 \<noteq> one_clip 0"
    by (simp add: one_clip_def)
qed

theorem trim_audios_store_overwrites_witness:
  "trim_audios_store trim_zero_samples one_clip 0 30 50 =
     Inr (one_clip(0 := [(0, \<lparr>Signal = [1], other = ()\<rparr>)]), 0)"
proof -
  define t where "t = (\<lambda>w. rev (dropWhile (\<lambda>s. s = 0) (rev (dropWhile (\<lambda>s. s = (0::rat)) w))))"
  have h: "\<forall>(index, row) \<in> set (one_clip 0).
             trim_zero_samples (Signal row) 30 50 = Inr (t (Signal row))"
    by (simp add: trim_zero_samples_def t_def)
  have m: "map (\<lambda>(index, row). (index, row\<lparr>Signal := t (Signal row)\<rparr>)) (one_clip 0)
      = [(0, \<lparr>Signal = [1], other = ()\<rparr>)]"
    by (simp add: one_clip_def t_def)
  from h have "trim_audios_store trim_zero_samples one_clip 0 30 50 =
     Inr (one_clip(0 := map (\<lambda>(index, row). (index, row\<lparr>Signal := t (Signal row)\<rparr>)) (one_clip 0)), 0)"
    by (rule trim_audios_store_overwrites [where trimmed = t])
  then show ?thesis by (simp only: m)
qed

subsection \<open>test_output_csv\<close>

lemma mapE_map_Inr:
  assumes "\<forall>z \<in> set zs. f (g z) = Inr (h z)"
  shows "mapE f (map g zs) = Inr (map h zs)"
  using assms by (induction zs) simp_all

lemma pad_or_truncate_Inr:
  "pad_or_truncate l srr m = Inr (projr (pad_or_truncate l srr m))"
proof (cases "of_nat (ncols m) \<le> max_pad_len l srr")
  case True
  then have "0 \<le> max_pad_len l srr - of_nat (ncols m)" by simp
  then have "\<lceil>0::rat\<rceil> \<le> \<lceil>max_pad_len l srr - of_nat (ncols m)\<rceil>" by (rule ceiling_mono)
  then have "\<not> \<lceil>max_pad_len l srr - of_nat (ncols m)\<rceil> < 0" by simp
  then show ?thesis using True by (simp add: pad_or_truncate_def np_pad_def Let_def)
next
  case False
  then show ?thesis by (simp add: pad_or_truncate_def)
qed

lemma map_zip_range_snd:
  "map (\<lambda>(index, row). f row) (zip [0..<length csv] csv) = map f csv"
proof -
  have m: "map snd (zip [0..<length csv] csv) = csv" by (simp add: map_snd_zip)
  have "map (\<lambda>(index, row). f row) (zip [0..<length csv] csv)
      = map (f \<circ> snd) (zip [0..<length csv] csv)"
    by (simp add: case_prod_unfold comp_def)
  also have "\<dots> = map f (map snd (zip [0..<length csv] csv))" by (simp only: map_map)
  also have "\<dots> = map f csv" by (simp only: m)
  finally show ?thesis .
qed

lemma zip_range_snd: "(i, row) \<in> set (zip [0..<length csv] csv) \<Longrightarrow> row \<in> set csv"
  by (rule set_zip_rightD)

lemma test_output_csv_run:
  assumes ne: "csv \<noteq> []"
    and ld: "\<forall>row \<in> set csv. load (csv_path row) = Inr (W row, R row)"
    and tr: "\<forall>row \<in> set csv. trim (W row) top_db hop_length = Inr (T row)"
    and mf: "\<forall>row \<in> set csv. mfcc (T row) (R (last csv)) = Inr (M row)"
  shows "test_output_csv predict load trim mfcc csv le l top_db hop_length =
     bindE (predict (map (\<lambda>row. projr (pad_or_truncate l (R (last csv)) (M row))) csv)) (\<lambda>p.
     bindE (mapE np_argmax p) (\<lambda>codes.
     bindE (inverse_transform le codes) (\<lambda>strs.
     Inr (zip [0..<length strs] strs))))"
proof -
  let ?Z = "zip [0..<length csv] csv"
  let ?rest = "\<lambda>row. (csv_Id row, csv_action row, csv_object row, csv_extra row)"
  let ?r = "R (last csv)"
  let ?fit = "\<lambda>row. projr (pad_or_truncate l ?r (M row))"
  let ?X = "map (\<lambda>(index, row). (index, \<lparr>Signal = W row, other = ?rest row\<rparr>)) ?Z"
  let ?XT = "map (\<lambda>(index, row). (index, \<lparr>Signal = T row, other = ?rest row\<rparr>)) ?Z"
  let ?XM = "map (\<lambda>(index, row). (index, \<lparr>Signal = ?fit row, other = ?rest row\<rparr>)) ?Z"
  have rd: "read_data load csv ''Not_train'' = Inr (TestData ?X ?r)"
    using ne _ ld by (rule read_data_test) simp
  have ta: "trim_audios trim ?X top_db hop_length = Inr ?XT"
    unfolding trim_audios_def
    by (rule mapE_map_Inr) (use tr in \<open>auto dest: zip_range_snd\<close>)
  have cm: "convert_to_mfcc mfcc ?XT ?r l = Inr ?XM"
    unfolding convert_to_mfcc_def
  proof (rule mapE_map_Inr, rule ballI)
    fix z assume z: "z \<in> set ?Z"
    obtain i row where zr: "z = (i, row)" by (cases z)
    with z have "row \<in> set csv" by (auto dest: zip_range_snd)
    with mf have m: "mfcc (T row) ?r = Inr (M row)" by simp
    show "(case (case z of (index, row) \<Rightarrow> (index, \<lparr>Signal = T row, other = ?rest row\<rparr>)) of
            (index, row) \<Rightarrow>
              bindE (mfcc (Signal row) ?r) (\<lambda>m.
              bindE (pad_or_truncate l ?r m) (\<lambda>m'.
              Inr (index, \<lparr>Signal = m', other = other row\<rparr>))))
          = Inr (case z of (index, row) \<Rightarrow> (index, \<lparr>Signal = ?fit row, other = ?rest row\<rparr>))"
      proof -
      have "bindE (mfcc (T row) ?r) (\<lambda>m.
              bindE (pad_or_truncate l ?r m) (\<lambda>m'.
              Inr (i, \<lparr>Signal = m', other = ?rest row\<rparr>)))
          = Inr (i, \<lparr>Signal = ?fit row, other = ?rest row\<rparr>)"
        by (subst m, subst bindE_Inr, subst pad_or_truncate_Inr, subst bindE_Inr) (rule refl)
      then show ?thesis by (simp add: zr)
    qed
  qed
  have s: "map (\<lambda>(index, row). ?fit row) ?Z = map ?fit csv"
    by (rule map_zip_range_snd)
  have "mapE (\<lambda>(index, row). if ''Signal'' \<in> set [''Signal''] then Inr (Signal row) else Inl KeyError) ?XM
      = Inr (map (\<lambda>(index, row). ?fit row) ?Z)"
    by (rule mapE_map_Inr) auto
  then have cn: "convert_to_numpy ?XM [''Signal''] None [] ''not train'' = Inr (XOnly (map ?fit csv))"
    by (simp add: convert_to_numpy_def s)
  show ?thesis
    by (simp add: test_output_csv_def rd ta cm cn)
qed

lemma Max_in_list: "v \<noteq> [] \<Longrightarrow> Max (set v) \<in> set v"
  by (rule Max_in) simp_all

lemma np_argmax_less: "v \<noteq> [] \<Longrightarrow> np_argmax v = Inr (index_of v (Max (set v))) \<and> index_of v (Max (set v)) < length v"
  by (simp add: np_argmax_def index_of_less Max_in_list)

lemma mapE_argmax:
  assumes "list_all (\<lambda>v. v \<noteq> []) p"
  shows "mapE np_argmax p = Inr (map (\<lambda>v. index_of v (Max (set v))) p)"
  using assms by (intro mapE_all_Inr) (simp add: list_all_iff np_argmax_def)

lemma decode_table:
  assumes "list_all (\<lambda>v. v \<noteq> []) p"
  shows "bindE (mapE np_argmax p) (\<lambda>codes.
         bindE (inverse_transform le codes) (\<lambda>strs.
         Inr (zip [0..<length strs] strs))) =
     (if list_all (\<lambda>v. index_of v (Max (set v)) < length (classes le)) p
      then Inr (zip [0..<length p] (map (\<lambda>v. classes le ! index_of v (Max (set v))) p))
      else Inl ValueError)"
  by (simp add: mapE_argmax [OF assms] inverse_transform_def list_all_iff comp_def)

text \<open>
  Claim C6, as amended. For an evaluation file of \<open>N \<ge> 1\<close> rows whose audio files load,
  trim and transform, and a network that returns for the \<open>N\<close> matrices \<open>N\<close> non-empty
  rows of at most as many scores as the encoder has classes, \<open>test_output_csv\<close> writes a
  table of exactly \<open>N\<close> rows whose \<open>Id\<close> column is \<open>0..N-1\<close> in order and whose
  \<open>Predicted\<close> values are all classes of the encoder.
\<close>

theorem test_output_csv_table:
  assumes ne: "evaluate_csv \<noteq> []"
    and ld: "\<forall>row \<in> set evaluate_csv. load (csv_path row) = Inr (W row, R row)"
    and tr: "\<forall>row \<in> set evaluate_csv. trim (W row) top_db hop_length = Inr (T row)"
    and mf: "\<forall>row \<in> set evaluate_csv. mfcc (T row) (R (last evaluate_csv)) = Inr (M row)"
    and pr: "predict (map (\<lambda>row. projr (pad_or_truncate max_audio_length (R (last evaluate_csv)) (M row)))
                 evaluate_csv) = Inr p"
    and pl: "length p = length evaluate_csv"
    and pw: "list_all (\<lambda>v. v \<noteq> [] \<and> length v \<le> length (classes le)) p"
  shows "\<exists>table. test_output_csv predict load trim mfcc evaluate_csv le max_audio_length
                  top_db hop_length = Inr table \<and>
           length table = length evaluate_csv \<and>
           map fst table = [0..<length evaluate_csv] \<and>
           map snd table = map (\<lambda>v. classes le ! index_of v (Max (set v))) p \<and>
           set (map snd table) \<subseteq> set (classes le)"
proof -
  let ?strs = "map (\<lambda>v. classes le ! index_of v (Max (set v))) p"
  have ne_p: "list_all (\<lambda>v. v \<noteq> []) p" using pw by (simp add: list_all_iff)
  have lt: "index_of v (Max (set v)) < length (classes le)" if "v \<in> set p" for v
  proof -
    from that pw have "v \<noteq> []" "length v \<le> length (classes le)" by (auto simp: list_all_iff)
    then show ?thesis using np_argmax_less [of v] by simp
  qed
  then have inr: "list_all (\<lambda>v. index_of v (Max (set v)) < length (classes le)) p"
    by (simp add: list_all_iff)
  have run: "test_output_csv predict load trim mfcc evaluate_csv le max_audio_length top_db hop_length
      = Inr (zip [0..<length p] ?strs)"
    by (simp only: test_output_csv_run [where W = W and R = R and T = T and M = M and load = load
          and trim = trim and mfcc = mfcc and csv = evaluate_csv and top_db = top_db
          and hop_length = hop_length, OF ne ld tr mf]
        pr bindE_Inr decode_table [OF ne_p] inr if_True)
  have "set ?strs \<subseteq> set (classes le)" using lt by auto
  then have "length (zip [0..<length p] ?strs) = length evaluate_csv \<and>
      map fst (zip [0..<length p] ?strs) = [0..<length evaluate_csv] \<and>
      map snd (zip [0..<length p] ?strs) = ?strs \<and>
      set (map snd (zip [0..<length p] ?strs)) \<subseteq> set (classes le)"
    using pl by (simp add: map_fst_zip map_snd_zip)
  with run show ?thesis by blast
qed

text \<open>
  Claim C6 as stated fails for \<open>N = 0\<close>: on an evaluation file without rows the loading
  loop never assigns \<open>srr\<close>, \<open>read_data\<close> raises UnboundLocalError, and no table is written.
\<close>

theorem test_output_csv_empty:
  "test_output_csv second_class_network two_files trim_zero_samples (frames_only_mfcc 2)
     ([] :: unit csv_row list) two_classes (5 / 2) 10 10 = Inl UnboundLocalError"
  by (simp add: test_output_csv_def read_data_empty)

theorem test_output_csv_table_witness:
  "two_rows \<noteq> [] \<and>
   (\<exists>table. test_output_csv second_class_network two_files trim_zero_samples (frames_only_mfcc 2)
                  two_rows two_classes (5 / 2) 10 10 = Inr table \<and>
           length table = length two_rows \<and>
           map fst table = [0..<length two_rows] \<and>
           set (map snd table) \<subseteq> set (classes two_classes))"
proof -
  define W where "W = (\<lambda>row :: unit csv_row. fst (projr (two_files (csv_path row))))"
  define R where "R = (\<lambda>row :: unit csv_row. snd (projr (two_files (csv_path row))))"
  define T where "T = (\<lambda>row. projr (trim_zero_samples (W row) 10 10))"
  define M where "M = (\<lambda>row. projr (frames_only_mfcc 2 (T row) (R (last two_rows))))"
  define b where "b = map (\<lambda>row. projr (pad_or_truncate (5 / 2) (R (last two_rows)) (M row))) two_rows"
  have ne: "two_rows \<noteq> []" by (simp add: two_rows_def)
  have ld: "\<forall>row \<in> set two_rows. two_files (csv_path row) = Inr (W row, R row)"
    by (simp add: two_rows_def two_files_def W_def R_def)
  have tr: "\<forall>row \<in> set two_rows. trim_zero_samples (W row) 10 10 = Inr (T row)"
    by (simp add: trim_zero_samples_def T_def)
  have mf: "\<forall>row \<in> set two_rows. frames_only_mfcc 2 (T row) (R (last two_rows)) = Inr (M row)"
    by (simp add: frames_only_mfcc_def M_def)
  have pr: "second_class_network
      (map (\<lambda>row. projr (pad_or_truncate (5 / 2) (R (last two_rows)) (M row))) two_rows)
      = Inr (map (\<lambda>m. [0, 1]) b)"
    by (simp only: second_class_network_def b_def)
  have pl: "length (map (\<lambda>m. [0, 1::rat]) b) = length two_rows" by (simp add: b_def)
  have pw: "list_all (\<lambda>v. v \<noteq> [] \<and> length v \<le> length (classes two_classes))
      (map (\<lambda>m. [0, 1::rat]) b)"
    by (simp add: list_all_iff two_classes_def)
  have "\<exists>table. test_output_csv second_class_network two_files trim_zero_samples (frames_only_mfcc 2)
                  two_rows two_classes (5 / 2) 10 10 = Inr table \<and>
           length table = length two_rows \<and>
           map fst table = [0..<length two_rows] \<and>
           map snd table = map (\<lambda>v. classes two_classes ! index_of v (Max (set v)))
                             (map (\<lambda>m. [0, 1::rat]) b) \<and>
           set (map snd table) \<subseteq> set (classes two_classes)"
    by (rule test_output_csv_table [where W = W and R = R and T = T and M = M
          and load = two_files and trim = trim_zero_samples and mfcc = "frames_only_mfcc 2"
          and evaluate_csv = two_rows and top_db = 10 and hop_length = 10
          and predict = second_class_network and max_audio_length = "5 / 2",
          OF ne ld tr mf pr pl pw])
  then have "\<exists>table. test_output_csv second_class_network two_files trim_zero_samples
                  (frames_only_mfcc 2) two_rows two_classes (5 / 2) 10 10 = Inr table \<and>
           length table = length two_rows \<and>
           map fst table = [0..<length two_rows] \<and>
           set (map snd table) \<subseteq> set (classes two_classes)"
    by (elim exE conjE) (intro exI conjI)
  with ne show ?thesis by (rule conjI)
qed

lemma bindE_rel:
  assumes "rel_sum (=) A m m'"
    and "\<And>a b. A a b \<Longrightarrow> rel_sum (=) B (k a) (k' b)"
  shows "rel_sum (=) B (bindE m k) (bindE m' k')"
  using assms by (cases m; cases m') (simp_all add: bindE_def)

lemma mapE_rel:
  assumes "list_all2 A xs ys"
    and "\<And>a b. A a b \<Longrightarrow> rel_sum (=) B (f a) (g b)"
  shows "rel_sum (=) (list_all2 B) (mapE f xs) (mapE g ys)"
  using assms(1)
proof (induction rule: list_all2_induct)
  case Nil
  show ?case by simp
next
  case (Cons a xs b ys)
  show ?case
    unfolding mapE.simps
    by (rule bindE_rel [OF assms(2) [OF Cons.hyps(1)]], rule bindE_rel [OF Cons.IH]) simp
qed

lemma load_loop_paths:
  assumes "map csv_path csv = map csv_path csv'"
  shows "load_loop load csv srr = load_loop load csv' srr"
  using assms
proof (induction csv arbitrary: csv' srr)
  case Nil
  then show ?case by simp
next
  case (Cons row rest)
  then obtain row' rest' where c: "csv' = row' # rest'" "csv_path row = csv_path row'"
      "map csv_path rest = map csv_path rest'"
    by (cases csv') auto
  have "load_loop load rest s = load_loop load rest' s" for s
    using c(3) by (rule Cons.IH)
  then show ?case by (simp add: c)
qed

lemma read_data_test_paths:
  assumes p: "map csv_path csv = map csv_path csv'" and d: "data \<noteq> ''train''"
  shows "rel_sum (=) (\<lambda>r r'. \<exists>x x' s. r = TestData x s \<and> r' = TestData x' s \<and> same_signals x x')
           (read_data load csv data) (read_data load csv' data)"
proof -
  have len: "length csv = length csv'" using p by (metis length_map)
  have ll: "load_loop load csv None = load_loop load csv' None" using p by (rule load_loop_paths)
  show ?thesis
  proof (cases "load_loop load csv' None")
    case (Inl e)
    then show ?thesis using ll by (simp add: read_data_def)
  next
    case (Inr r)
    obtain waves srr where r: "r = (waves, srr)" by (cases r)
    show ?thesis
    proof (cases srr)
      case None
      then show ?thesis using ll Inr r d by (simp add: read_data_def read_local_def)
    next
      case (Some s)
      have "same_signals
          (map (\<lambda>(index, row, wave). (index, \<lparr>Signal = wave,
              other = (csv_Id row, csv_action row, csv_object row, csv_extra row)\<rparr>))
            (zip [0..<length csv] (zip csv waves)))
          (map (\<lambda>(index, row, wave). (index, \<lparr>Signal = wave,
              other = (csv_Id row, csv_action row, csv_object row, csv_extra row)\<rparr>))
            (zip [0..<length csv'] (zip csv' waves)))"
        unfolding same_signals_def
        by (simp add: list_all2_conv_all_nth len case_prod_unfold)
      then show ?thesis using ll Inr r d Some
        by (simp add: read_data_def read_local_def Let_def)
    qed
  qed
qed

lemma trim_audios_signals:
  assumes "same_signals x x'"
  shows "rel_sum (=) same_signals (trim_audios trim x top_db hop_length)
           (trim_audios trim x' top_db hop_length)"
  unfolding trim_audios_def same_signals_def
  by (rule mapE_rel [OF assms [unfolded same_signals_def]])
     (auto simp: bindE_def split: sum.splits)

lemma convert_to_mfcc_signals:
  assumes "same_signals x x'"
  shows "rel_sum (=) same_signals (convert_to_mfcc mfcc x srr l) (convert_to_mfcc mfcc x' srr l)"
  unfolding convert_to_mfcc_def same_signals_def
  by (rule mapE_rel [OF assms [unfolded same_signals_def]])
     (auto simp: bindE_def split: sum.splits)

lemma convert_to_numpy_signals:
  assumes "same_signals x x'"
  shows "convert_to_numpy x [''Signal''] None [] ''not train'' =
         convert_to_numpy x' [''Signal''] None [] ''not train''"
proof -
  have "rel_sum (=) (list_all2 (=))
      (mapE (\<lambda>(index, row). if ''Signal'' \<in> set [''Signal''] then Inr (Signal row) else Inl KeyError) x)
      (mapE (\<lambda>(index, row). if ''Signal'' \<in> set [''Signal''] then Inr (Signal row) else Inl KeyError) x')"
    by (rule mapE_rel [OF assms [unfolded same_signals_def]]) (auto simp: case_prod_unfold)
  then have "mapE (\<lambda>(index, row). if ''Signal'' \<in> set [''Signal''] then Inr (Signal row) else Inl KeyError) x
      = mapE (\<lambda>(index, row). if ''Signal'' \<in> set [''Signal''] then Inr (Signal row) else Inl KeyError) x'"
    by (simp add: list.rel_eq sum.rel_eq)
  then show ?thesis by (simp add: convert_to_numpy_def)
qed

lemma test_output_csv_paths:
  fixes csv csv' :: "'e csv_row list"
  assumes "map csv_path csv = map csv_path csv'"
  shows "test_output_csv predict load trim mfcc csv le l top_db hop_length =
         test_output_csv predict load trim mfcc csv' le l top_db hop_length"
proof -
  let ?K = "\<lambda>r. (case r of
        TrainData x y srr \<Rightarrow> Inl ValueError
      | TestData x_test srr_test \<Rightarrow>
          bindE (trim_audios trim x_test top_db hop_length) (\<lambda>X_test_trimed.
          bindE (convert_to_mfcc mfcc X_test_trimed srr_test l) (\<lambda>X_mfcc_test.
          bindE (convert_to_numpy X_mfcc_test [''Signal''] None [] ''not train'') (\<lambda>n.
          (case n of
             XandY a b \<Rightarrow> Inl TypeError
           | XOnly X_n_test \<Rightarrow>
               bindE (predict X_n_test) (\<lambda>predicted_y.
               bindE (mapE np_argmax predicted_y) (\<lambda>predicted_y.
               bindE (inverse_transform le predicted_y) (\<lambda>predicted_y_string.
               Inr (zip [0..<length predicted_y_string] predicted_y_string)))))))))"
  have d: "''Not_train'' \<noteq> ''train''" by simp
  have body: "rel_sum (=) (=) (?K (TestData x s :: 'e read_result)) (?K (TestData x' s))"
    if "same_signals x x'" for x x' s
    unfolding read_result.case
    apply (rule bindE_rel [OF trim_audios_signals [OF that]])
    apply (rule bindE_rel [OF convert_to_mfcc_signals], assumption)
    apply (drule convert_to_numpy_signals)
    apply (simp add: sum.rel_eq)
    done
  have "rel_sum (=) (=) (bindE (read_data load csv ''Not_train'') ?K)
      (bindE (read_data load csv' ''Not_train'') ?K)"
  proof (rule bindE_rel [OF read_data_test_paths [OF assms d]])
    fix a b :: "'e read_result"
    assume "\<exists>x x' s. a = TestData x s \<and> b = TestData x' s \<and> same_signals x x'"
    then obtain x x' s where "a = TestData x s" "b = TestData x' s" "same_signals x x'"
      by blast
    then show "rel_sum (=) (=) (?K a) (?K b)" using body by simp
  qed
  then show ?thesis by (simp add: test_output_csv_def sum.rel_eq)
qed

text \<open>
  Claim C9, as amended. \<open>test_output_csv\<close> looks up no label string: the encoder only
  decodes the predicted class indices. When the files load, trim and transform and the
  network returns non-empty rows of scores, the run fails with ValueError, writing no table,
  exactly when the arg-max index of some row is outside the encoder's classes; otherwise
  every row is decoded to the class at its arg-max index, never to a default class. The
  result is the same for every evaluation file with the same paths, whatever its other
  columns (label strings included) hold.
\<close>

theorem test_output_csv_decodes_indices:
  fixes evaluate_csv :: "'e csv_row list"
  assumes ne: "evaluate_csv \<noteq> []"
    and ld: "\<forall>row \<in> set evaluate_csv. load (csv_path row) = Inr (W row, R row)"
    and tr: "\<forall>row \<in> set evaluate_csv. trim (W row) top_db hop_length = Inr (T row)"
    and mf: "\<forall>row \<in> set evaluate_csv. mfcc (T row) (R (last evaluate_csv)) = Inr (M row)"
    and pr: "predict (map (\<lambda>row. projr (pad_or_truncate max_audio_length (R (last evaluate_csv)) (M row)))
                 evaluate_csv) = Inr p"
    and pn: "list_all (\<lambda>v. v \<noteq> []) p"
  shows "test_output_csv predict load trim mfcc evaluate_csv le max_audio_length top_db hop_length =
           (if list_all (\<lambda>v. index_of v (Max (set v)) < length (classes le)) p
            then Inr (zip [0..<length p] (map (\<lambda>v. classes le ! index_of v (Max (set v))) p))
            else Inl ValueError) \<and>
         (\<forall>other :: 'e csv_row list. map csv_path other = map csv_path evaluate_csv \<longrightarrow>
            test_output_csv predict load trim mfcc other le max_audio_length top_db hop_length =
            test_output_csv predict load trim mfcc evaluate_csv le max_audio_length top_db hop_length)"
proof (intro conjI allI impI)
  show "test_output_csv predict load trim mfcc evaluate_csv le max_audio_length top_db hop_length =
           (if list_all (\<lambda>v. index_of v (Max (set v)) < length (classes le)) p
            then Inr (zip [0..<length p] (map (\<lambda>v. classes le ! index_of v (Max (set v))) p))
            else Inl ValueError)"
    by (simp only: test_output_csv_run [where W = W and R = R and T = T and M = M and load = load
          and trim = trim and mfcc = mfcc and csv = evaluate_csv and top_db = top_db
          and hop_length = hop_length, OF ne ld tr mf]
        pr bindE_Inr decode_table [OF pn])
next
  fix other :: "'e csv_row list"
  assume "map csv_path other = map csv_path evaluate_csv"
  then show "test_output_csv predict load trim mfcc other le max_audio_length top_db hop_length =
      test_output_csv predict load trim mfcc evaluate_csv le max_audio_length top_db hop_length"
    by (rule test_output_csv_paths)
qed

text \<open>
  Claim C9 as stated fails: evaluation rows that carry the label \<open>singsong\<close>, which is
  outside the encoder's domain, do not make the run fail; it returns a table.
\<close>

theorem test_output_csv_ignores_labels:
  "test_output_csv second_class_network two_files trim_zero_samples (frames_only_mfcc 2)
     unseen_rows two_classes (5 / 2) 10 10 = Inr [(0, ''onlight''), (1, ''onlight'')] \<and>
   map (\<lambda>row. csv_action row @ csv_object row) unseen_rows = [''singsong'', ''singsong''] \<and>
   ''singsong'' \<notin> set (classes two_classes)"
  by (simp add: test_output_csv_def read_data_def unseen_rows_def two_files_def read_local_def
     trim_audios_def trim_zero_samples_def convert_to_mfcc_def frames_only_mfcc_def
     pad_or_truncate_def max_pad_len_def np_pad_def convert_to_numpy_def second_class_network_def
     np_argmax_def index_of_def inverse_transform_def two_classes_def)

text \<open>
  A network with three outputs and an encoder of two classes: the index 2 is outside the
  encoder's classes and the run fails with ValueError.
\<close>

theorem test_output_csv_decodes_indices_witness:
  "test_output_csv third_class_network two_files trim_zero_samples (frames_only_mfcc 2)
     two_rows two_classes (5 / 2) 10 10 = Inl ValueError \<and>
   test_output_csv third_class_network two_files trim_zero_samples (frames_only_mfcc 2)
     unseen_rows two_classes (5 / 2) 10 10 =
   test_output_csv third_class_network two_files trim_zero_samples (frames_only_mfcc 2)
     two_rows two_classes (5 / 2) 10 10"
proof -
  define W where "W = (\<lambda>row :: unit csv_row. fst (projr (two_files (csv_path row))))"
  define R where "R = (\<lambda>row :: unit csv_row. snd (projr (two_files (csv_path row))))"
  define T where "T = (\<lambda>row. projr (trim_zero_samples (W row) 10 10))"
  define M where "M = (\<lambda>row. projr (frames_only_mfcc 2 (T row) (R (last two_rows))))"
  define b where "b = map (\<lambda>row. projr (pad_or_truncate (5 / 2) (R (last two_rows)) (M row))) two_rows"
  define p where "p = map (\<lambda>m :: ndarray. [0, 0, 1::rat]) b"
  have ne: "two_rows \<noteq> []" by (simp add: two_rows_def)
  have ld: "\<forall>row \<in> set two_rows. two_files (csv_path row) = Inr (W row, R row)"
    by (simp add: two_rows_def two_files_def W_def R_def)
  have tr: "\<forall>row \<in> set two_rows. trim_zero_samples (W row) 10 10 = Inr (T row)"
    by (simp add: trim_zero_samples_def T_def)
  have mf: "\<forall>row \<in> set two_rows. frames_only_mfcc 2 (T row) (R (last two_rows)) = Inr (M row)"
    by (simp add: frames_only_mfcc_def M_def)
  have pr: "third_class_network
      (map (\<lambda>row. projr (pad_or_truncate (5 / 2) (R (last two_rows)) (M row))) two_rows)
      = Inr p"
    by (simp only: third_class_network_def b_def p_def)
  have pn: "list_all (\<lambda>v. v \<noteq> []) p" by (simp add: list_all_iff p_def)
  have bad: "\<not> list_all (\<lambda>v. index_of v (Max (set v)) < length (classes two_classes)) p"
    by (simp add: p_def b_def two_rows_def two_classes_def index_of_def)
  have same: "map csv_path unseen_rows = map csv_path two_rows"
    by (simp add: unseen_rows_def two_rows_def)
  note inst = test_output_csv_decodes_indices [where W = W and R = R and T = T and M = M
          and load = two_files and trim = trim_zero_samples and mfcc = "frames_only_mfcc 2"
          and evaluate_csv = two_rows and top_db = 10 and hop_length = 10
          and predict = third_class_network and max_audio_length = "5 / 2" and p = p
          and le = two_classes, OF ne ld tr mf pr pn]
  have
    "test_output_csv third_class_network two_files trim_zero_samples (frames_only_mfcc 2)
       two_rows two_classes (5 / 2) 10 10 = Inl ValueError"
    by (simp only: inst [THEN conjunct1] bad if_False)
  moreover have
    "test_output_csv third_class_network two_files trim_zero_samples (frames_only_mfcc 2)
       unseen_rows two_classes (5 / 2) 10 10 =
     test_output_csv third_class_network two_files trim_zero_samples (frames_only_mfcc 2)
       two_rows two_classes (5 / 2) 10 10"
    by (rule inst [THEN conjunct2, rule_format, OF same])
  ultimately show ?thesis by (rule conjI)
qed

end
